theory Spec2Isabelle
  imports Complex_Main
begin

section \<open>Fitbit Treadmill Sync: model of the sync client and the session tracker\<close>

text \<open>
  The theory embeds \<^verbatim>\<open>const.py\<close>, \<^verbatim>\<open>api.py\<close> (class \<^verbatim>\<open>FitbitAPI\<close>) and
  \<^verbatim>\<open>coordinator.py\<close> (class \<^verbatim>\<open>FitbitTreadmillCoordinator\<close>).

  Conventions of the embedding.
  \<^item> A Python \<^verbatim>\<open>float\<close> is a \<open>real\<close>; infinities and NaN are not modelled. Float
    arithmetic is exact arithmetic, except in \<^verbatim>\<open>convert_distance_to_steps\<close>: its quotient
    is truncated by \<^verbatim>\<open>int\<close>, and the rounding of doubles can move it across an integer
    (in doubles \<^verbatim>\<open>int(0.79 * 5280 / 0.79)\<close> is 5279). There each operation is followed by
    \<open>float_round\<close>, the rounding of the machine, which is a parameter: what is proved
    holds for every rounding.
  \<^item> A \<^verbatim>\<open>datetime\<close> is its number of microseconds since the epoch (an \<open>int\<close>), the
    resolution of Python's \<^verbatim>\<open>datetime\<close> and \<^verbatim>\<open>timedelta\<close>.
  \<^item> An exception is a value of type \<open>exn\<close>; a method that may raise returns
    \<open>exn + 'a\<close> (\<open>Inl\<close> is the raised exception) together with the updated object.
  \<^item> Every answer of the outside world during one call (clock readings, replies of the
    remote service, sensor states, the configured time zone) is a field of the record
    \<open>env\<close>.
  \<^item> The host is Home Assistant. Two of its interfaces decide what the code does and are
    modelled by definitions of their own: \<^verbatim>\<open>hass.async_add_executor_job\<close>, which takes
    positional arguments only, and \<^verbatim>\<open>hass.config.time_zone\<close>, which is a string.
  \<^item> Outbound calls are logged in the object through which the code issues them:
    \<open>client_calls\<close> for \<^verbatim>\<open>self.client\<close>, \<open>hass_calls\<close> for \<^verbatim>\<open>self.hass\<close> and
    \<^verbatim>\<open>self.entry\<close>. Log messages (\<^verbatim>\<open>_LOGGER\<close>) are not modelled.
  \<^item> \<^verbatim>\<open>await\<close> is sequential composition: one coroutine runs from start to end.
\<close>

subsection \<open>const.py\<close>

type_synonym datetime = int

definition ACTIVITY_TYPES :: "string \<rightharpoonup> int" where
  "ACTIVITY_TYPES = [''Walking'' \<mapsto> 90013, ''Running'' \<mapsto> 90009, ''Treadmill'' \<mapsto> 15000]"

definition TOKEN_REFRESH_BUFFER :: real where
  "TOKEN_REFRESH_BUFFER = 300"

definition STATE_POST_WORKOUT :: string where
  "STATE_POST_WORKOUT = ''Post-Workout''"

definition STATE_WORKING :: string where
  "STATE_WORKING = ''Working''"

definition STATE_STANDBY :: string where
  "STATE_STANDBY = ''Standby''"

definition FEET_PER_MILE :: real where
  "FEET_PER_MILE = 5280"

definition MIN_DISTANCE :: real where
  "MIN_DISTANCE = 1 / 100"

definition MAX_DISTANCE :: real where
  "MAX_DISTANCE = 100"

definition MIN_STRIDE :: real where
  "MIN_STRIDE = 1 / 2"

definition MAX_STRIDE :: real where
  "MAX_STRIDE = 5"

definition MAX_HISTORY_SIZE :: nat where
  "MAX_HISTORY_SIZE = 50"

subsection \<open>Python built-ins\<close>

text \<open>\<^verbatim>\<open>int(x)\<close> on a float truncates toward zero.\<close>

definition py_int :: "real \<Rightarrow> int" where
  "py_int x = (if 0 \<le> x then \<lfloor>x\<rfloor> else \<lceil>x\<rceil>)"

text \<open>\<^verbatim>\<open>timedelta.total_seconds()\<close> of a difference of two datetimes.\<close>

definition total_seconds :: "int \<Rightarrow> real" where
  "total_seconds delta = real_of_int delta / 1000000"

text \<open>
  The exceptions the code raises or catches. \<^verbatim>\<open>RateLimitError\<close> is a subclass of
  \<^verbatim>\<open>FitbitAPIError\<close>; the \<^verbatim>\<open>HTTP...\<close> exceptions are those of the \<^verbatim>\<open>fitbit\<close> library;
  \<^verbatim>\<open>TypeError\<close> is raised by a call with an argument the callee does not take;
  \<open>OtherError\<close> stands for any other exception of an external call.
\<close>

datatype exn =
    ConfigEntryAuthFailed
  | RateLimitError
  | FitbitAPIError
  | HTTPUnauthorized
  | HTTPTooManyRequests
  | HTTPBadRequest
  | ValueError
  | ZeroDivisionError
  | TypeError
  | OtherError

subsection \<open>api.py: the data of \<^verbatim>\<open>FitbitAPI\<close>\<close>

text \<open>
  The reply of the token endpoint is a dictionary; a subscript on a missing key raises
  \<^verbatim>\<open>KeyError\<close>, so each of the three keys the code reads is optional here.
\<close>

record token_data =
  td_access_token :: "string option"
  td_refresh_token :: "string option"
  td_expires_in :: "real option"

text \<open>
  The payload \<^verbatim>\<open>activity_data\<close> of the create-activity request. The two strings
  \<^verbatim>\<open>startTime\<close> and \<^verbatim>\<open>date\<close> are two renderings of \<^verbatim>\<open>start_time\<close>, kept here as the
  datetime itself.
\<close>

record activity_data =
  ad_activityId :: int
  ad_start :: datetime
  ad_durationMillis :: int
  ad_distance :: real
  ad_distanceUnit :: string
  ad_steps :: "int option"

text \<open>
  The reply of a successful create-activity request, as far as the code reads it:
  \<^verbatim>\<open>response.get("activityLog", {}).get("logId")\<close>.
\<close>

record response =
  activityLog :: "int option option"

type_synonym profile = "(string \<times> string) list"

datatype client_call =
    RefreshTokenCall
  | ActivitiesCall activity_data
  | UserProfileGetCall

record FitbitAPI =
  access_token :: string
  refresh_token :: string
  expires_at :: real
  request_times :: "real list"
  client_calls :: "client_call list"
  entry_token :: "(string \<times> string \<times> real) option"

text \<open>
  Sensor states as \<^verbatim>\<open>hass.states.get(entity).state\<close> gives them to \<^verbatim>\<open>float()\<close>: the two
  special states, a string that \<^verbatim>\<open>float()\<close> parses to the finite number \<open>x\<close>
  (\<open>StateNumber x\<close>), or a string that \<^verbatim>\<open>float()\<close> refuses (\<open>StateNotNumeric\<close>). The strings
  that \<^verbatim>\<open>float()\<close> parses to an infinity or to NaN are none of these: they are outside
  the model.
\<close>

datatype state_value =
    StateUnavailable
  | StateUnknown
  | StateNumber real
  | StateNotNumeric

text \<open>
  The world during one call: the readings of \<^verbatim>\<open>time.time()\<close> in \<^verbatim>\<open>_ensure_token_valid\<close>,
  \<^verbatim>\<open>_refresh_token\<close> and \<^verbatim>\<open>_check_rate_limit\<close>; what the three remote requests answer
  when they are made; the states of the entities; the reading of \<^verbatim>\<open>datetime.now()\<close>; the
  string \<^verbatim>\<open>hass.config.time_zone\<close>; the rounding of double arithmetic.
\<close>

record env =
  time_ensure :: real
  time_refresh :: real
  time_rate :: real
  refresh_reply :: "exn + token_data"
  activities_reply :: "exn + response"
  profile_reply :: "exn + profile"
  hass_states :: "string \<rightharpoonup> state_value"
  datetime_now :: datetime
  config_time_zone :: string
  float_round :: "real \<Rightarrow> real"

subsection \<open>The host and the standard library\<close>

text \<open>
  \<^verbatim>\<open>HomeAssistant.async_add_executor_job(target, *args)\<close> takes positional arguments
  only. A call that passes a keyword argument raises \<^verbatim>\<open>TypeError\<close> at the call, and
  \<open>target\<close> is not run. Otherwise \<open>target\<close> runs: the request \<open>call\<close> goes out through
  \<^verbatim>\<open>self.client\<close> and its outcome \<open>reply\<close> is returned or raised.
\<close>

definition async_add_executor_job ::
  "bool \<Rightarrow> client_call \<Rightarrow> exn + 'r \<Rightarrow> FitbitAPI \<Rightarrow> (exn + 'r) \<times> FitbitAPI" where
  "async_add_executor_job keyword_arguments call reply a =
     (if keyword_arguments then (Inl TypeError, a)
      else (reply, a\<lparr>client_calls := client_calls a @ [call]\<rparr>))"

text \<open>
  \<^verbatim>\<open>datetime.now(tz)\<close> takes \<^verbatim>\<open>None\<close> or a \<^verbatim>\<open>tzinfo\<close> object. The code passes
  \<^verbatim>\<open>hass.config.time_zone\<close>, the name of the time zone, which is a \<^verbatim>\<open>str\<close>: the call
  raises \<^verbatim>\<open>TypeError\<close>, whatever the name.
\<close>

datatype tz_argument =
    TzNone
  | TzInfo
  | TzString string

fun datetime_now_tz :: "env \<Rightarrow> tz_argument \<Rightarrow> exn + datetime" where
  "datetime_now_tz e (TzString name) = Inl TypeError"
| "datetime_now_tz e tz = Inr (datetime_now e)"

subsection \<open>api.py: the methods of \<^verbatim>\<open>FitbitAPI\<close>\<close>

text \<open>
  \<^verbatim>\<open>_refresh_token\<close>: the remote call, then the three assignments in source order, then
  the update of the config entry; any exception inside becomes
  \<^verbatim>\<open>ConfigEntryAuthFailed\<close>.
\<close>

definition refresh_token_op :: "env \<Rightarrow> FitbitAPI \<Rightarrow> (exn + unit) \<times> FitbitAPI" where
  "refresh_token_op e a =
     (case async_add_executor_job False RefreshTokenCall (refresh_reply e) a of
        (Inl err, a0) \<Rightarrow> (Inl ConfigEntryAuthFailed, a0)
      | (Inr td, a0) \<Rightarrow>
          (case td_access_token td of
             None \<Rightarrow> (Inl ConfigEntryAuthFailed, a0)
           | Some new_access \<Rightarrow>
               (let a1 = a0\<lparr>access_token := new_access\<rparr> in
                case td_refresh_token td of
                  None \<Rightarrow> (Inl ConfigEntryAuthFailed, a1)
                | Some new_refresh \<Rightarrow>
                    (let a2 = a1\<lparr>refresh_token := new_refresh\<rparr> in
                     case td_expires_in td of
                       None \<Rightarrow> (Inl ConfigEntryAuthFailed, a2)
                     | Some expires_in \<Rightarrow>
                         (let a3 = a2\<lparr>expires_at := time_refresh e + expires_in\<rparr> in
                          (Inr (), a3\<lparr>entry_token :=
                             Some (access_token a3, refresh_token a3, expires_at a3)\<rparr>))))))"

definition ensure_token_valid :: "env \<Rightarrow> FitbitAPI \<Rightarrow> (exn + unit) \<times> FitbitAPI" where
  "ensure_token_valid e a =
     (let current_time = time_ensure e in
      if current_time \<ge> expires_at a - TOKEN_REFRESH_BUFFER
      then refresh_token_op e a
      else (Inr (), a))"

text \<open>\<^verbatim>\<open>_check_rate_limit\<close>, with the reading of \<^verbatim>\<open>time.time()\<close> as its argument.\<close>

definition check_rate_limit :: "real \<Rightarrow> FitbitAPI \<Rightarrow> (exn + unit) \<times> FitbitAPI" where
  "check_rate_limit current_time a =
     (let a1 = a\<lparr>request_times := filter (\<lambda>t. current_time - t < 3600) (request_times a)\<rparr> in
      if length (request_times a1) \<ge> 150
      then (Inl RateLimitError, a1)
      else (Inr (), a1\<lparr>request_times := request_times a1 @ [current_time]\<rparr>))"

text \<open>
  \<^verbatim>\<open>convert_distance_to_steps\<close>. The product and the quotient are doubles: each is rounded
  by \<open>float_round e\<close>. Division by a zero stride raises \<^verbatim>\<open>ZeroDivisionError\<close>.
\<close>

definition convert_distance_to_steps ::
  "env \<Rightarrow> real \<Rightarrow> real \<Rightarrow> string \<Rightarrow> exn + (int \<times> string)" where
  "convert_distance_to_steps e distance_miles stride_feet activity_type =
     (let distance_feet = float_round e (distance_miles * FEET_PER_MILE) in
      if stride_feet = 0 then Inl ZeroDivisionError
      else Inr (py_int (float_round e (distance_feet / stride_feet)), ''manual_calculation''))"

text \<open>
  \<^verbatim>\<open>create_activity_log\<close>. The request is handed to the executor with the keyword
  argument \<^verbatim>\<open>data=activity_data\<close> (line 220), inside the \<^verbatim>\<open>try\<close> whose \<^verbatim>\<open>except\<close>
  clauses follow in source order.
\<close>

definition create_activity_log ::
  "env \<Rightarrow> FitbitAPI \<Rightarrow> string \<Rightarrow> real \<Rightarrow> datetime \<Rightarrow> int \<Rightarrow> int option
     \<Rightarrow> (exn + response) \<times> FitbitAPI" where
  "create_activity_log e a activity_type distance_miles start_time duration_minutes steps =
     (case ensure_token_valid e a of
        (Inl err, a1) \<Rightarrow> (Inl err, a1)
      | (Inr _, a1) \<Rightarrow>
          (case check_rate_limit (time_rate e) a1 of
             (Inl err, a2) \<Rightarrow> (Inl err, a2)
           | (Inr _, a2) \<Rightarrow>
               (let activity_id =
                      (case ACTIVITY_TYPES activity_type of
                         Some i \<Rightarrow> i
                       | None \<Rightarrow> the (ACTIVITY_TYPES ''Walking''));
                    data = \<lparr>ad_activityId = activity_id,
                            ad_start = start_time,
                            ad_durationMillis = duration_minutes * 60 * 1000,
                            ad_distance = distance_miles,
                            ad_distanceUnit = ''mi'',
                            ad_steps = steps\<rparr>
                in case async_add_executor_job True (ActivitiesCall data)
                          (activities_reply e) a2 of
                     (Inr resp, a3) \<Rightarrow> (Inr resp, a3)
                   | (Inl HTTPUnauthorized, a3) \<Rightarrow> (Inl ConfigEntryAuthFailed, a3)
                   | (Inl HTTPTooManyRequests, a3) \<Rightarrow> (Inl RateLimitError, a3)
                   | (Inl HTTPBadRequest, a3) \<Rightarrow> (Inl FitbitAPIError, a3)
                   | (Inl _, a3) \<Rightarrow> (Inl FitbitAPIError, a3))))"

definition get_user_profile :: "env \<Rightarrow> FitbitAPI \<Rightarrow> (exn + profile) \<times> FitbitAPI" where
  "get_user_profile e a =
     (case ensure_token_valid e a of
        (Inl err, a1) \<Rightarrow> (Inl err, a1)
      | (Inr _, a1) \<Rightarrow>
          (case async_add_executor_job False UserProfileGetCall (profile_reply e) a1 of
             (Inr p, a2) \<Rightarrow> (Inr p, a2)
           | (Inl _, a2) \<Rightarrow> (Inl FitbitAPIError, a2)))"

subsection \<open>coordinator.py: the data of \<^verbatim>\<open>FitbitTreadmillCoordinator\<close>\<close>

record session =
  start_time :: datetime
  start_distance :: real

text \<open>The dictionary \<^verbatim>\<open>sync_record\<close> appended to \<^verbatim>\<open>_sync_history\<close>.\<close>

record sync_record =
  sr_timestamp :: datetime
  sr_distance_miles :: real
  sr_steps :: int
  sr_duration_minutes :: int
  sr_conversion_method :: string
  sr_activity_type :: string
  sr_success :: bool
  sr_fitbit_log_id :: "int option"

text \<open>
  \<^verbatim>\<open>entry.data\<close> and \<^verbatim>\<open>entry.options\<close>: every key is read with \<^verbatim>\<open>.get\<close>, so a key may
  be absent (\<open>None\<close>).
\<close>

record entry_data =
  conf_activity_type :: "string option"
  conf_stride_length :: "real option"
  conf_auto_sync :: "bool option"
  conf_notification_enabled :: "bool option"

record entry_options =
  conf_status_entity :: "string option"
  conf_distance_entity :: "string option"

text \<open>The text of a failure notification, by the place that builds it.\<close>

datatype error_text =
    DistanceTooSmall real
  | DistanceTooLarge real
  | AuthenticationFailedText
  | RateLimitExceededText
  | FitbitApiErrorText exn
  | UnexpectedErrorText exn
  | StrOfException exn

text \<open>
  Calls on the host: the persistent notification of \<^verbatim>\<open>_notify_sync_result\<close> (with its
  arguments \<^verbatim>\<open>success\<close>, \<^verbatim>\<open>steps\<close>, \<^verbatim>\<open>distance\<close>, \<^verbatim>\<open>error\<close>), the event
  \<^verbatim>\<open>EVENT_WORKOUT_SYNCED\<close> (steps, distance, duration_minutes, conversion_method) and
  \<^verbatim>\<open>entry.async_start_reauth\<close>.
\<close>

datatype hass_call =
    Notification bool "int option" "real option" "error_text option"
  | WorkoutSyncedEvent int real int string
  | StartReauth

record coordinator =
  api :: FitbitAPI
  data :: entry_data
  options :: entry_options
  current_session :: "session option"
  sync_history :: "sync_record list"
  last_sync_time :: "datetime option"
  hass_calls :: "hass_call list"

text \<open>The state objects of a state-change event: \<^verbatim>\<open>.state\<close> and \<^verbatim>\<open>.last_changed\<close>.\<close>

record ha_state =
  st_state :: string
  st_last_changed :: datetime

record event_data =
  ev_old_state :: "ha_state option"
  ev_new_state :: "ha_state option"

subsection \<open>coordinator.py: the methods of \<^verbatim>\<open>FitbitTreadmillCoordinator\<close>\<close>

definition notify_sync_result ::
  "coordinator \<Rightarrow> bool \<Rightarrow> int option \<Rightarrow> real option \<Rightarrow> error_text option \<Rightarrow> coordinator" where
  "notify_sync_result c success steps distance error =
     (if \<not> (case conf_notification_enabled (data c) of None \<Rightarrow> True | Some b \<Rightarrow> b)
      then c
      else c\<lparr>hass_calls := hass_calls c @ [Notification success steps distance error]\<rparr>)"

definition get_distance_value :: "env \<Rightarrow> coordinator \<Rightarrow> exn + real" where
  "get_distance_value e c =
     (case conf_distance_entity (options c) of
        None \<Rightarrow> Inl ValueError
      | Some distance_entity \<Rightarrow>
          if distance_entity = [] then Inl ValueError
          else (case hass_states e distance_entity of
                  None \<Rightarrow> Inl ValueError
                | Some StateUnavailable \<Rightarrow> Inl ValueError
                | Some StateUnknown \<Rightarrow> Inl ValueError
                | Some StateNotNumeric \<Rightarrow> Inl ValueError
                | Some (StateNumber distance) \<Rightarrow> Inr distance))"

text \<open>
  The four \<^verbatim>\<open>except\<close> clauses of \<^verbatim>\<open>_async_sync_workout\<close>, in source order; each
  notifies and raises the exception again.
\<close>

fun sync_workout_except :: "coordinator \<Rightarrow> exn \<Rightarrow> (exn + sync_record) \<times> coordinator" where
  "sync_workout_except c ConfigEntryAuthFailed =
     (let c1 = notify_sync_result c False None None (Some AuthenticationFailedText)
      in (Inl ConfigEntryAuthFailed, c1\<lparr>hass_calls := hass_calls c1 @ [StartReauth]\<rparr>))"
| "sync_workout_except c RateLimitError =
     (Inl RateLimitError, notify_sync_result c False None None (Some RateLimitExceededText))"
| "sync_workout_except c FitbitAPIError =
     (Inl FitbitAPIError,
      notify_sync_result c False None None (Some (FitbitApiErrorText FitbitAPIError)))"
| "sync_workout_except c err =
     (Inl err, notify_sync_result c False None None (Some (UnexpectedErrorText err)))"

definition async_sync_workout ::
  "env \<Rightarrow> coordinator \<Rightarrow> real \<Rightarrow> datetime \<Rightarrow> int \<Rightarrow> (exn + sync_record) \<times> coordinator" where
  "async_sync_workout e c distance start_time' duration_minutes =
     (let activity_type =
            (case conf_activity_type (data c) of None \<Rightarrow> ''Walking'' | Some t \<Rightarrow> t);
          stride_length =
            (case conf_stride_length (data c) of None \<Rightarrow> 5 / 2 | Some s \<Rightarrow> s)
      in case convert_distance_to_steps e distance stride_length activity_type of
           Inl err \<Rightarrow> sync_workout_except c err
         | Inr (steps, conversion_method) \<Rightarrow>
             (case create_activity_log e (api c) activity_type distance start_time'
                     duration_minutes (Some steps) of
                (Inl err, a') \<Rightarrow> sync_workout_except (c\<lparr>api := a'\<rparr>) err
              | (Inr resp, a') \<Rightarrow>
                  (let sync_record =
                         \<lparr>sr_timestamp = datetime_now e,
                          sr_distance_miles = distance,
                          sr_steps = steps,
                          sr_duration_minutes = duration_minutes,
                          sr_conversion_method = conversion_method,
                          sr_activity_type = activity_type,
                          sr_success = True,
                          sr_fitbit_log_id =
                            (case activityLog resp of None \<Rightarrow> None | Some log_id \<Rightarrow> log_id)\<rparr>;
                       c1 = c\<lparr>api := a', sync_history := sync_history c @ [sync_record]\<rparr>;
                       c2 = (if length (sync_history c1) > MAX_HISTORY_SIZE
                             then c1\<lparr>sync_history := tl (sync_history c1)\<rparr>
                             else c1);
                       c3 = c2\<lparr>last_sync_time := Some (datetime_now e)\<rparr>;
                       c4 = notify_sync_result c3 True (Some steps) (Some distance) None;
                       c5 = c4\<lparr>hass_calls := hass_calls c4 @
                              [WorkoutSyncedEvent steps distance duration_minutes
                                 conversion_method]\<rparr>
                   in (Inr sync_record, c5))))"

definition async_start_session :: "env \<Rightarrow> coordinator \<Rightarrow> datetime \<Rightarrow> coordinator" where
  "async_start_session e c start_time' =
     (case get_distance_value e c of
        Inr distance \<Rightarrow>
          c\<lparr>current_session := Some \<lparr>start_time = start_time', start_distance = distance\<rparr>\<rparr>
      | Inl err \<Rightarrow>
          c\<lparr>current_session := Some \<lparr>start_time = start_time', start_distance = 0\<rparr>\<rparr>)"

text \<open>
  \<^verbatim>\<open>_async_complete_session\<close>. The \<^verbatim>\<open>finally\<close> clause clears the session on every
  path; the \<^verbatim>\<open>except Exception\<close> clause notifies with \<^verbatim>\<open>str(err)\<close> and returns.
\<close>

definition async_complete_session :: "env \<Rightarrow> coordinator \<Rightarrow> datetime \<Rightarrow> coordinator" where
  "async_complete_session e c end_time =
     (let (start_time', start_distance') =
            (case current_session c of
               None \<Rightarrow> (end_time, 0)
             | Some s \<Rightarrow> (start_time s, start_distance s))
      in case get_distance_value e c of
           Inl err \<Rightarrow>
             (notify_sync_result c False None None (Some (StrOfException err)))
               \<lparr>current_session := None\<rparr>
         | Inr end_distance \<Rightarrow>
             (let workout_distance = end_distance - start_distance' in
              if workout_distance < MIN_DISTANCE then
                (notify_sync_result c False None None (Some (DistanceTooSmall workout_distance)))
                  \<lparr>current_session := None\<rparr>
              else if workout_distance > MAX_DISTANCE then
                (notify_sync_result c False None None (Some (DistanceTooLarge workout_distance)))
                  \<lparr>current_session := None\<rparr>
              else
                (let duration = end_time - start_time';
                     duration_minutes = max 1 (py_int (total_seconds duration / 60))
                 in case async_sync_workout e c workout_distance start_time' duration_minutes of
                      (Inl err, c1) \<Rightarrow>
                        (notify_sync_result c1 False None None (Some (StrOfException err)))
                          \<lparr>current_session := None\<rparr>
                    | (Inr r, c1) \<Rightarrow> c1\<lparr>current_session := None\<rparr>)))"

definition async_status_changed :: "env \<Rightarrow> coordinator \<Rightarrow> event_data \<Rightarrow> coordinator" where
  "async_status_changed e c event =
     (case (ev_new_state event, ev_old_state event) of
        (Some new_state, Some old_state) \<Rightarrow>
          if st_state old_state \<noteq> STATE_WORKING \<and> st_state new_state = STATE_WORKING
          then async_start_session e c (st_last_changed new_state)
          else if st_state old_state = STATE_WORKING \<and> st_state new_state = STATE_POST_WORKOUT
          then (if (case conf_auto_sync (data c) of None \<Rightarrow> True | Some b \<Rightarrow> b)
                then async_complete_session e c (st_last_changed new_state)
                else c)
          else c
      | _ \<Rightarrow> c)"

text \<open>
  \<^verbatim>\<open>manual_sync\<close>. Everything is inside one \<^verbatim>\<open>try\<close>, whose \<^verbatim>\<open>except Exception\<close> clause
  notifies with \<^verbatim>\<open>str(err)\<close> and raises again. The start time is
  \<^verbatim>\<open>datetime.now(self.hass.config.time_zone)\<close> (line 376), read before the duration is
  estimated and the sync is run.
\<close>

definition manual_sync ::
  "env \<Rightarrow> coordinator \<Rightarrow> real option \<Rightarrow> (exn + sync_record) \<times> coordinator" where
  "manual_sync e c distance_override =
     (case (case distance_override of
              Some d \<Rightarrow> Inr d
            | None \<Rightarrow> get_distance_value e c) of
        Inl err \<Rightarrow>
          (Inl err, notify_sync_result c False None None (Some (StrOfException err)))
      | Inr distance \<Rightarrow>
          (case datetime_now_tz e (TzString (config_time_zone e)) of
             Inl err \<Rightarrow>
               (Inl err, notify_sync_result c False None None (Some (StrOfException err)))
           | Inr start_time' \<Rightarrow>
               (let duration_minutes = max 1 (py_int (distance * 20))
                in case async_sync_workout e c distance start_time' duration_minutes of
                     (Inl err, c1) \<Rightarrow>
                       (Inl err,
                        notify_sync_result c1 False None None (Some (StrOfException err)))
                   | (Inr r, c1) \<Rightarrow> (Inr r, c1))))"

subsection \<open>Sequences of admission attempts\<close>

text \<open>
  \<open>admit_all ts a\<close> calls \<^verbatim>\<open>_check_rate_limit\<close> once for each clock reading of \<open>ts\<close>, in
  order, and returns the readings that were admitted together with the final object.
  \<open>in_trailing_window T t\<close> says that \<open>t\<close> lies in the 3600 seconds that end at \<open>T\<close>.
\<close>

fun admit_all :: "real list \<Rightarrow> FitbitAPI \<Rightarrow> real list \<times> FitbitAPI" where
  "admit_all [] a = ([], a)"
| "admit_all (t # ts) a =
     (case check_rate_limit t a of
        (Inr u, a') \<Rightarrow> (case admit_all ts a' of (adm, a'') \<Rightarrow> (t # adm, a''))
      | (Inl err, a') \<Rightarrow> admit_all ts a')"

definition in_trailing_window :: "real \<Rightarrow> real \<Rightarrow> bool" where
  "in_trailing_window T t = (T - 3600 < t \<and> t \<le> T)"

definition admitted_in_window :: "real \<Rightarrow> real list \<Rightarrow> FitbitAPI \<Rightarrow> nat" where
  "admitted_in_window T ts a = length (filter (in_trailing_window T) (fst (admit_all ts a)))"

subsection \<open>Example objects\<close>

text \<open>
  A client whose token is valid until time 100000 and whose window is empty; the same
  client with 150 requests at time 900; a world at time 1000 in which the remote service
  would accept an activity, the token endpoint fails and the distance sensor reads 3.5
  miles; the same world with a token reply that lacks \<^verbatim>\<open>expires_in\<close>, and with a complete
  token reply; a coordinator configured with stride 2.5 ft, without and with an open
  session. The example world rounds nothing: on the numbers of the examples (halves and
  small integers) the arithmetic of doubles is exact.
\<close>

definition new_api :: FitbitAPI where
  "new_api = \<lparr>access_token = ''access-0'', refresh_token = ''refresh-0'', expires_at = 100000,
     request_times = [], client_calls = [], entry_token = None\<rparr>"

definition busy_api :: FitbitAPI where
  "busy_api = new_api\<lparr>request_times := replicate 150 900\<rparr>"

definition quiet_env :: env where
  "quiet_env = \<lparr>time_ensure = 1000, time_refresh = 1000, time_rate = 1000,
     refresh_reply = Inl OtherError,
     activities_reply = Inr \<lparr>activityLog = Some (Some 42)\<rparr>,
     profile_reply = Inr [],
     hass_states = [''sensor.distance'' \<mapsto> StateNumber (7 / 2)],
     datetime_now = 7200000000,
     config_time_zone = ''UTC'',
     float_round = (\<lambda>x. x)\<rparr>"

definition partial_reply_env :: env where
  "partial_reply_env = quiet_env\<lparr>refresh_reply :=
     Inr \<lparr>td_access_token = Some ''access-1'', td_refresh_token = Some ''refresh-1'',
          td_expires_in = None\<rparr>\<rparr>"

definition full_reply_env :: env where
  "full_reply_env = quiet_env\<lparr>refresh_reply :=
     Inr \<lparr>td_access_token = Some ''access-1'', td_refresh_token = Some ''refresh-1'',
          td_expires_in = Some 28800\<rparr>\<rparr>"

definition new_coordinator :: coordinator where
  "new_coordinator = \<lparr>api = new_api,
     data = \<lparr>conf_activity_type = Some ''Walking'', conf_stride_length = Some (5 / 2),
              conf_auto_sync = Some True, conf_notification_enabled = Some True\<rparr>,
     options = \<lparr>conf_status_entity = Some ''sensor.status'',
                 conf_distance_entity = Some ''sensor.distance''\<rparr>,
     current_session = None, sync_history = [], last_sync_time = None, hass_calls = []\<rparr>"

definition in_session :: "datetime \<Rightarrow> real \<Rightarrow> coordinator" where
  "in_session t0 d0 =
     new_coordinator\<lparr>current_session := Some \<lparr>start_time = t0, start_distance = d0\<rparr>\<rparr>"

definition status_event :: "string \<Rightarrow> string \<Rightarrow> datetime \<Rightarrow> event_data" where
  "status_event old_status new_status changed_at =
     \<lparr>ev_old_state = Some \<lparr>st_state = old_status, st_last_changed = 0\<rparr>,
      ev_new_state = Some \<lparr>st_state = new_status, st_last_changed = changed_at\<rparr>\<rparr>"

section \<open>Auxiliary facts\<close>

subsection \<open>Truncation\<close>



subsection \<open>The rate limiter\<close>

lemma fst_admit_all_Cons:
  "fst (admit_all (t # ts) a) =
     (case fst (check_rate_limit t a) of
        Inr u \<Rightarrow> t # fst (admit_all ts (snd (check_rate_limit t a)))
      | Inl err \<Rightarrow> fst (admit_all ts (snd (check_rate_limit t a))))"
  by (simp split: prod.splits sum.splits)

lemma snd_admit_all_Cons:
  "snd (admit_all (t # ts) a) = snd (admit_all ts (snd (check_rate_limit t a)))"
  by (simp split: prod.splits sum.splits)

lemma fst_admit_all_append:
  "fst (admit_all (xs @ ys) a) =
     fst (admit_all xs a) @ fst (admit_all ys (snd (admit_all xs a)))"
  by (induction xs arbitrary: a)
     (simp_all add: fst_admit_all_Cons snd_admit_all_Cons del: admit_all.simps(2)
        split: sum.splits)

text \<open>A reading inside the window that ends at \<open>T\<close> survives the purge at any time in it.\<close>

lemma filter_window_purged:
  assumes "in_trailing_window T t"
  shows "filter (in_trailing_window T) (filter (\<lambda>u. t - u < 3600) xs) =
           filter (in_trailing_window T) xs"
proof -
  have "\<And>u. in_trailing_window T u \<Longrightarrow> t - u < 3600"
    using assms by (simp add: in_trailing_window_def)
  then show ?thesis by (induction xs) auto
qed

lemma filter_purge_twice:
  assumes "c \<le> (t::real)"
  shows "filter (\<lambda>u. t - u < 3600) (filter (\<lambda>u. c - u < 3600) xs) =
           filter (\<lambda>u. t - u < 3600) xs"
  using assms by (induction xs) auto

text \<open>
  The invariant of a run on a clock that does not go back: the stored window is the
  purge, at the last reading \<open>c\<close>, of everything admitted so far (\<open>adm0\<close>).
\<close>

lemma admit_all_window:
  assumes "sorted (c # ts)"
    and "request_times a = filter (\<lambda>u. c - u < 3600) adm0"
    and "\<And>T. length (filter (in_trailing_window T) adm0) \<le> 150"
  shows "length (filter (in_trailing_window T) (adm0 @ fst (admit_all ts a))) \<le> 150"
  using assms
proof (induction ts arbitrary: a adm0 c)
  case Nil
  then show ?case by simp
next
  case (Cons t ts)
  let ?w1 = "filter (\<lambda>u. t - u < 3600) (request_times a)"
  have ct: "c \<le> t" and srt: "sorted (t # ts)" using Cons.prems(1) by auto
  have w1: "?w1 = filter (\<lambda>u. t - u < 3600) adm0"
    unfolding Cons.prems(2) by (rule filter_purge_twice [OF ct])
  show ?case
  proof (cases "150 \<le> length ?w1")
    case True
    then have step: "check_rate_limit t a = (Inl RateLimitError, a\<lparr>request_times := ?w1\<rparr>)"
      by (simp add: check_rate_limit_def Let_def)
    have "length (filter (in_trailing_window T)
            (adm0 @ fst (admit_all ts (a\<lparr>request_times := ?w1\<rparr>)))) \<le> 150"
      by (rule Cons.IH [OF srt _ Cons.prems(3)]) (simp add: w1)
    then show ?thesis by (simp add: fst_admit_all_Cons step del: admit_all.simps)
  next
    case False
    then have step: "check_rate_limit t a = (Inr (), a\<lparr>request_times := ?w1 @ [t]\<rparr>)"
      by (simp add: check_rate_limit_def Let_def)
    have inv: "length (filter (in_trailing_window T') (adm0 @ [t])) \<le> 150" for T'
    proof (cases "in_trailing_window T' t")
      case True
      have "filter (in_trailing_window T') adm0 = filter (in_trailing_window T') ?w1"
        unfolding w1 by (rule filter_window_purged [OF True, symmetric])
      moreover have "length (filter (in_trailing_window T') ?w1) \<le> length ?w1"
        by (rule length_filter_le)
      ultimately have "length (filter (in_trailing_window T') adm0) \<le> length ?w1"
        by (simp only:)
      with False True show ?thesis by simp
    next
      case False
      then show ?thesis using Cons.prems(3) [of T'] by simp
    qed
    have "length (filter (in_trailing_window T)
            ((adm0 @ [t]) @ fst (admit_all ts (a\<lparr>request_times := ?w1 @ [t]\<rparr>)))) \<le> 150"
      by (rule Cons.IH [OF srt _ inv]) (simp add: w1)
    then show ?thesis by (simp add: fst_admit_all_Cons step del: admit_all.simps)
  qed
qed

lemma check_rate_limit_length:
  assumes le: "length (request_times a) \<le> 150"
  shows "length (request_times (snd (check_rate_limit t a))) \<le> 150"
proof -
  have "length (filter (\<lambda>u. t - u < 3600) (request_times a)) \<le> length (request_times a)"
    by (rule length_filter_le)
  with le have "length (filter (\<lambda>u. t - u < 3600) (request_times a)) \<le> 150"
    by linarith
  then show ?thesis
    by (simp add: check_rate_limit_def Let_def)
qed

lemma admit_all_length:
  "length (request_times a) \<le> 150 \<Longrightarrow> length (request_times (snd (admit_all ts a))) \<le> 150"
proof (induction ts arbitrary: a)
  case Nil
  then show ?case by simp
next
  case (Cons t ts)
  from check_rate_limit_length [OF Cons.prems, of t]
  have "length (request_times (snd (admit_all ts (snd (check_rate_limit t a))))) \<le> 150"
    by (rule Cons.IH)
  then show ?case by (simp only: snd_admit_all_Cons)
qed

lemma check_rate_limit_reject:
  assumes "fst (check_rate_limit t a) \<noteq> Inr ()"
  shows "fst (check_rate_limit t a) = Inl RateLimitError
       \<and> snd (check_rate_limit t a) =
           a\<lparr>request_times := filter (\<lambda>u. t - u < 3600) (request_times a)\<rparr>"
  using assms by (simp add: check_rate_limit_def Let_def split: if_splits)

text \<open>A burst of \<open>n\<close> attempts at one reading \<open>t\<close>, while the quota lasts, is admitted whole.\<close>

lemma admit_all_burst:
  "length (request_times a) + n \<le> 150 \<Longrightarrow> \<forall>u \<in> set (request_times a). t - u < 3600 \<Longrightarrow>
     admit_all (replicate n t) a =
       (replicate n t, a\<lparr>request_times := request_times a @ replicate n t\<rparr>)"
proof (induction n arbitrary: a)
  case 0
  then show ?case by simp
next
  case (Suc n)
  have keep: "filter (\<lambda>u. t - u < 3600) (request_times a) = request_times a"
    using Suc.prems(2) by (simp add: filter_id_conv)
  have step: "check_rate_limit t a = (Inr (), a\<lparr>request_times := request_times a @ [t]\<rparr>)"
    using Suc.prems(1) by (simp add: check_rate_limit_def Let_def keep)
  have "admit_all (replicate n t) (a\<lparr>request_times := request_times a @ [t]\<rparr>) =
          (replicate n t, (a\<lparr>request_times := request_times a @ [t]\<rparr>)
             \<lparr>request_times :=
                request_times (a\<lparr>request_times := request_times a @ [t]\<rparr>) @ replicate n t\<rparr>)"
    using Suc.prems by (intro Suc.IH) auto
  then show ?case by (simp add: step)
qed

subsection \<open>The sync client\<close>

text \<open>
  The executor refuses the keyword argument, so \<^verbatim>\<open>create_activity_log\<close> passes the token
  check and the rate limiter and then raises \<^verbatim>\<open>FitbitAPIError\<close>: the request is never
  sent, whatever the remote service would answer.
\<close>

lemma create_activity_log_host:
  "create_activity_log e a act d t dur st =
     (case ensure_token_valid e a of
        (Inl err, a1) \<Rightarrow> (Inl err, a1)
      | (Inr u, a1) \<Rightarrow>
          (case check_rate_limit (time_rate e) a1 of
             (Inl err, a2) \<Rightarrow> (Inl err, a2)
           | (Inr v, a2) \<Rightarrow> (Inl FitbitAPIError, a2)))"
  by (simp add: create_activity_log_def async_add_executor_job_def Let_def
        split: prod.splits sum.splits)

lemma create_activity_log_raises:
  "\<exists>err. fst (create_activity_log e a act d t dur st) = Inl err"
  by (simp add: create_activity_log_host split: prod.splits sum.splits)

subsection \<open>The session tracker\<close>

lemma sync_history_notify_sync_result:
  "sync_history (notify_sync_result c ok st di er) = sync_history c"
  by (simp add: notify_sync_result_def)

lemma sync_workout_except_raises: "fst (sync_workout_except c err) = Inl err"
  by (cases err) (simp_all add: Let_def)

lemma sync_history_sync_workout_except:
  "sync_history (snd (sync_workout_except c err)) = sync_history c"
  by (cases err) (simp_all add: notify_sync_result_def Let_def)

text \<open>So no sync succeeds, and none writes the history.\<close>

lemma async_sync_workout_raises:
  "\<exists>err. fst (async_sync_workout e c d t dur) = Inl err"
proof -
  let ?act = "case conf_activity_type (data c) of None \<Rightarrow> ''Walking'' | Some t \<Rightarrow> t"
  let ?stride = "case conf_stride_length (data c) of None \<Rightarrow> 5 / 2 | Some s \<Rightarrow> s"
  show ?thesis
  proof (cases "convert_distance_to_steps e d ?stride ?act")
    case (Inl err)
    then show ?thesis
      by (simp add: async_sync_workout_def Let_def sync_workout_except_raises)
  next
    case (Inr res)
    obtain steps tag where res: "res = (steps, tag)" by (cases res)
    obtain err a' where cr: "create_activity_log e (api c) ?act d t dur (Some steps) = (Inl err, a')"
      using create_activity_log_raises [of e "api c" ?act d t dur "Some steps"]
      by (cases "create_activity_log e (api c) ?act d t dur (Some steps)") auto
    show ?thesis
      by (simp add: async_sync_workout_def Let_def Inr res cr sync_workout_except_raises)
  qed
qed

lemma sync_history_async_sync_workout:
  "sync_history (snd (async_sync_workout e c d t dur)) = sync_history c"
proof -
  let ?act = "case conf_activity_type (data c) of None \<Rightarrow> ''Walking'' | Some t \<Rightarrow> t"
  let ?stride = "case conf_stride_length (data c) of None \<Rightarrow> 5 / 2 | Some s \<Rightarrow> s"
  show ?thesis
  proof (cases "convert_distance_to_steps e d ?stride ?act")
    case (Inl err)
    then show ?thesis
      by (simp add: async_sync_workout_def Let_def sync_history_sync_workout_except)
  next
    case (Inr res)
    obtain steps tag where res: "res = (steps, tag)" by (cases res)
    obtain err a' where cr: "create_activity_log e (api c) ?act d t dur (Some steps) = (Inl err, a')"
      using create_activity_log_raises [of e "api c" ?act d t dur "Some steps"]
      by (cases "create_activity_log e (api c) ?act d t dur (Some steps)") auto
    show ?thesis
      by (simp add: async_sync_workout_def Let_def Inr res cr sync_history_sync_workout_except)
  qed
qed

lemma sync_history_async_complete_session:
  "sync_history (async_complete_session e c t) = sync_history c"
proof -
  have "sync_history (case async_sync_workout e c d t0 dur of
            (Inl err, c1) \<Rightarrow>
              (notify_sync_result c1 False None None (Some (StrOfException err)))
                \<lparr>current_session := None\<rparr>
          | (Inr r, c1) \<Rightarrow> c1\<lparr>current_session := None\<rparr>) = sync_history c" for d t0 dur
    using sync_history_async_sync_workout [of e c d t0 dur]
    by (cases "async_sync_workout e c d t0 dur")
       (auto simp add: sync_history_notify_sync_result split: sum.splits)
  then show ?thesis
    by (cases "current_session c")
       (simp_all add: async_complete_session_def Let_def sync_history_notify_sync_result
          split: sum.splits)
qed

text \<open>The manual sync stops at its start time, for every override.\<close>

lemma manual_sync_host:
  "manual_sync e c (Some d) =
     (Inl TypeError, notify_sync_result c False None None (Some (StrOfException TypeError)))"
  by (simp add: manual_sync_def)

text \<open>Nothing on the path of a sync reads the session, and only its end clears it.\<close>

lemma notify_sync_result_clear:
  "(notify_sync_result (c\<lparr>current_session := x\<rparr>) ok st di er)\<lparr>current_session := y\<rparr> =
     (notify_sync_result c ok st di er)\<lparr>current_session := y\<rparr>"
  by (simp add: notify_sync_result_def)

lemma sync_workout_except_session:
  "sync_workout_except (c\<lparr>current_session := x\<rparr>) err =
     (fst (sync_workout_except c err), (snd (sync_workout_except c err))\<lparr>current_session := x\<rparr>)"
  by (cases err) (simp_all add: notify_sync_result_def Let_def)

lemma sync_workout_except_session_api:
  "sync_workout_except (c\<lparr>current_session := x, api := a\<rparr>) err =
     (fst (sync_workout_except (c\<lparr>api := a\<rparr>) err),
      (snd (sync_workout_except (c\<lparr>api := a\<rparr>) err))\<lparr>current_session := x\<rparr>)"
  by (cases err) (simp_all add: notify_sync_result_def Let_def)

lemma async_sync_workout_session:
  "async_sync_workout e (c\<lparr>current_session := x\<rparr>) d t dur =
     (fst (async_sync_workout e c d t dur),
      (snd (async_sync_workout e c d t dur))\<lparr>current_session := x\<rparr>)"
  by (simp add: async_sync_workout_def Let_def sync_workout_except_session
        sync_workout_except_session_api notify_sync_result_def split: sum.splits prod.splits)

lemma get_distance_value_session:
  "get_distance_value e (c\<lparr>current_session := x\<rparr>) = get_distance_value e c"
  by (simp add: get_distance_value_def)

lemma complete_session_no_session:
  assumes "current_session c = None"
  shows "async_complete_session e c t =
           async_complete_session e
             (c\<lparr>current_session := Some \<lparr>start_time = t, start_distance = 0\<rparr>\<rparr>) t"
  using assms
  by (simp add: async_complete_session_def Let_def get_distance_value_session
        notify_sync_result_clear async_sync_workout_session
        split: sum.splits prod.splits)

lemma complete_session_no_session_in_bounds:
  assumes "current_session c = None"
    and "get_distance_value e c = Inr x"
    and "MIN_DISTANCE \<le> x" and "x \<le> MAX_DISTANCE"
  shows "async_complete_session e c t =
           (case async_sync_workout e c x t 1 of
              (Inl err, c1) \<Rightarrow>
                (notify_sync_result c1 False None None (Some (StrOfException err)))
                  \<lparr>current_session := None\<rparr>
            | (Inr r, c1) \<Rightarrow> c1\<lparr>current_session := None\<rparr>)"
  using assms
  by (simp add: async_complete_session_def Let_def total_seconds_def py_int_def)

section \<open>The claims\<close>

subsection \<open>C1: a completed workout within bounds\<close>

text \<open>
  Claim C1 asks, for a distance within the bounds, for one history record with
  \<open>success = True\<close> and \<open>steps = \<lfloor>d * 5280 / stride\<rfloor>\<close>. The code has the branch that
  writes this record and never reaches it: \<^verbatim>\<open>create_activity_log\<close> hands the request to
  \<^verbatim>\<open>hass.async_add_executor_job\<close> with the keyword argument \<^verbatim>\<open>data=\<close>, the call raises
  \<^verbatim>\<open>TypeError\<close> and the method raises \<^verbatim>\<open>FitbitAPIError\<close>. So no run of
  \<^verbatim>\<open>_async_complete_session\<close> changes the sync history. In particular, for a session
  from 1 to 3.5 miles (\<open>d = 2.5\<close>) with a valid token, an empty rate window and a remote
  service that would accept the activity: no request is sent, one slot of the window is
  used, two failure notifications go out and the history stays empty.
\<close>

theorem complete_session_never_records:
  "sync_history (async_complete_session e c end_time) = sync_history c
   \<and> get_distance_value quiet_env (in_session 0 1) = Inr (7 / 2)
   \<and> MIN_DISTANCE \<le> 7 / 2 - 1 \<and> 7 / 2 - 1 \<le> MAX_DISTANCE
   \<and> activities_reply quiet_env = Inr \<lparr>activityLog = Some (Some 42)\<rparr>
   \<and> sync_history (async_complete_session quiet_env (in_session 0 1) 600000000) = []
   \<and> client_calls (api (async_complete_session quiet_env (in_session 0 1) 600000000)) = []
   \<and> request_times (api (async_complete_session quiet_env (in_session 0 1) 600000000)) = [1000]
   \<and> hass_calls (async_complete_session quiet_env (in_session 0 1) 600000000) =
        [Notification False None None (Some (FitbitApiErrorText FitbitAPIError)),
         Notification False None None (Some (StrOfException FitbitAPIError))]"
proof -
  have run: "async_complete_session quiet_env (in_session 0 1) 600000000 =
      new_coordinator
        \<lparr>api := new_api\<lparr>request_times := [1000]\<rparr>,
         hass_calls :=
           [Notification False None None (Some (FitbitApiErrorText FitbitAPIError)),
            Notification False None None (Some (StrOfException FitbitAPIError))]\<rparr>"
    by (simp add: async_complete_session_def async_sync_workout_def
          convert_distance_to_steps_def create_activity_log_host ensure_token_valid_def
          check_rate_limit_def get_distance_value_def notify_sync_result_def quiet_env_def
          in_session_def new_coordinator_def new_api_def MIN_DISTANCE_def MAX_DISTANCE_def
          TOKEN_REFRESH_BUFFER_def Let_def)
  have dist: "get_distance_value quiet_env (in_session 0 1) = Inr (7 / 2)"
    by (simp add: get_distance_value_def quiet_env_def in_session_def new_coordinator_def)
  have bounds: "MIN_DISTANCE \<le> 7 / 2 - 1 \<and> 7 / 2 - 1 \<le> MAX_DISTANCE"
    by (simp add: MIN_DISTANCE_def MAX_DISTANCE_def)
  have rep: "activities_reply quiet_env = Inr \<lparr>activityLog = Some (Some 42)\<rparr>"
    by (simp add: quiet_env_def)
  have fields: "sync_history (async_complete_session quiet_env (in_session 0 1) 600000000) = []
      \<and> client_calls (api (async_complete_session quiet_env (in_session 0 1) 600000000)) = []
      \<and> request_times (api (async_complete_session quiet_env (in_session 0 1) 600000000))
          = [1000]
      \<and> hass_calls (async_complete_session quiet_env (in_session 0 1) 600000000) =
          [Notification False None None (Some (FitbitApiErrorText FitbitAPIError)),
           Notification False None None (Some (StrOfException FitbitAPIError))]"
    by (simp add: run new_coordinator_def new_api_def)
  from sync_history_async_complete_session [of e c end_time] dist bounds rep fields
  show ?thesis by (intro conjI) simp_all
qed

subsection \<open>C2: a workout out of bounds\<close>




subsection \<open>C3: Post-Workout without an open session\<close>

text \<open>
  Claim C3, as the code has it. Let the new status be Post-Workout, no session be open and
  auto-sync not be disabled. If the previous status is Working, \<^verbatim>\<open>_async_status_changed\<close>
  runs the completion once, and it runs exactly as with an open session that starts at
  the time of the event with \<open>start_distance = 0\<close>; when the sensor reads \<open>x\<close> within the
  bounds, this is one sync of distance \<open>x\<close> with a duration of 1 minute. If the previous
  status is not Working, the event does nothing.
\<close>

theorem post_workout_without_session:
  assumes new: "st_state new_state = STATE_POST_WORKOUT"
    and none: "current_session c = None"
    and auto: "conf_auto_sync (data c) \<noteq> Some False"
  shows "(st_state old_state = STATE_WORKING \<longrightarrow>
            async_status_changed e c \<lparr>ev_old_state = Some old_state, ev_new_state = Some new_state\<rparr>
              = async_complete_session e
                  (c\<lparr>current_session :=
                       Some \<lparr>start_time = st_last_changed new_state, start_distance = 0\<rparr>\<rparr>)
                  (st_last_changed new_state))
       \<and> (st_state old_state = STATE_WORKING \<and> get_distance_value e c = Inr x
            \<and> MIN_DISTANCE \<le> x \<and> x \<le> MAX_DISTANCE \<longrightarrow>
            async_status_changed e c \<lparr>ev_old_state = Some old_state, ev_new_state = Some new_state\<rparr>
              = (case async_sync_workout e c x (st_last_changed new_state) 1 of
                   (Inl err, c1) \<Rightarrow>
                     (notify_sync_result c1 False None None (Some (StrOfException err)))
                       \<lparr>current_session := None\<rparr>
                 | (Inr r, c1) \<Rightarrow> c1\<lparr>current_session := None\<rparr>))
       \<and> (st_state old_state \<noteq> STATE_WORKING \<longrightarrow>
            async_status_changed e c \<lparr>ev_old_state = Some old_state, ev_new_state = Some new_state\<rparr>
              = c)"
    (is "?zero \<and> ?once \<and> ?idle")
proof -
  have ne: "STATE_POST_WORKOUT \<noteq> STATE_WORKING"
    by (simp add: STATE_POST_WORKOUT_def STATE_WORKING_def)
  have au: "(case conf_auto_sync (data c) of None \<Rightarrow> True | Some b \<Rightarrow> b)"
    using auto by (cases "conf_auto_sync (data c)") auto
  have run: "st_state old_state = STATE_WORKING \<Longrightarrow>
      async_status_changed e c \<lparr>ev_old_state = Some old_state, ev_new_state = Some new_state\<rparr>
        = async_complete_session e c (st_last_changed new_state)"
    using ne au by (simp add: async_status_changed_def new)
  have skip: "st_state old_state \<noteq> STATE_WORKING \<Longrightarrow>
      async_status_changed e c \<lparr>ev_old_state = Some old_state, ev_new_state = Some new_state\<rparr>
        = c"
    using ne by (simp add: async_status_changed_def new)
  have zero: ?zero
    using run complete_session_no_session [OF none, of e "st_last_changed new_state"]
    by simp
  have once: ?once
    using run complete_session_no_session_in_bounds [OF none, of e x "st_last_changed new_state"]
    by simp
  have idle: ?idle
    using skip by simp
  from zero once idle show ?thesis by (intro conjI)
qed

theorem post_workout_without_session_witness:
  "async_status_changed quiet_env new_coordinator
       (status_event STATE_WORKING STATE_POST_WORKOUT 600000000)
     = async_complete_session quiet_env (in_session 600000000 0) 600000000
   \<and> async_status_changed quiet_env new_coordinator
       (status_event STATE_WORKING STATE_POST_WORKOUT 600000000)
     = (case async_sync_workout quiet_env new_coordinator (7 / 2) 600000000 1 of
          (Inl err, c1) \<Rightarrow>
            (notify_sync_result c1 False None None (Some (StrOfException err)))
              \<lparr>current_session := None\<rparr>
        | (Inr r, c1) \<Rightarrow> c1\<lparr>current_session := None\<rparr>)
   \<and> async_status_changed quiet_env new_coordinator
       (status_event STATE_STANDBY STATE_POST_WORKOUT 600000000)
     = new_coordinator"
proof -
  let ?post = "\<lparr>st_state = STATE_POST_WORKOUT, st_last_changed = 600000000\<rparr>"
  let ?working = "\<lparr>st_state = STATE_WORKING, st_last_changed = 0\<rparr>"
  let ?standby = "\<lparr>st_state = STATE_STANDBY, st_last_changed = 0\<rparr>"
  have new: "st_state ?post = STATE_POST_WORKOUT" by simp
  have none: "current_session new_coordinator = None"
    by (simp add: new_coordinator_def)
  have auto: "conf_auto_sync (data new_coordinator) \<noteq> Some False"
    by (simp add: new_coordinator_def)
  have dist: "get_distance_value quiet_env new_coordinator = Inr (7 / 2)"
    by (simp add: get_distance_value_def quiet_env_def new_coordinator_def)
  have bounds: "MIN_DISTANCE \<le> 7 / 2" "(7 / 2 :: real) \<le> MAX_DISTANCE"
    by (simp_all add: MIN_DISTANCE_def MAX_DISTANCE_def)
  have other: "st_state ?standby \<noteq> STATE_WORKING"
    by (simp add: STATE_STANDBY_def STATE_WORKING_def)
  note from_working =
    post_workout_without_session [OF new none auto, of ?working quiet_env "7 / 2"]
  note from_standby =
    post_workout_without_session [OF new none auto, of ?standby quiet_env "7 / 2"]
  have zero: "async_status_changed quiet_env new_coordinator
       (status_event STATE_WORKING STATE_POST_WORKOUT 600000000)
     = async_complete_session quiet_env (in_session 600000000 0) 600000000"
    using from_working by (simp add: status_event_def in_session_def)
  have once: "async_status_changed quiet_env new_coordinator
       (status_event STATE_WORKING STATE_POST_WORKOUT 600000000)
     = (case async_sync_workout quiet_env new_coordinator (7 / 2) 600000000 1 of
          (Inl err, c1) \<Rightarrow>
            (notify_sync_result c1 False None None (Some (StrOfException err)))
              \<lparr>current_session := None\<rparr>
        | (Inr r, c1) \<Rightarrow> c1\<lparr>current_session := None\<rparr>)"
    using conjunct1 [OF conjunct2 [OF from_working]] dist bounds
    by (simp add: status_event_def)
  have idle: "async_status_changed quiet_env new_coordinator
       (status_event STATE_STANDBY STATE_POST_WORKOUT 600000000)
     = new_coordinator"
    using from_standby other by (simp add: status_event_def)
  from zero once idle show ?thesis by (intro conjI)
qed

text \<open>
  The claim as stated fails: with no session open, an event from Standby to Post-Workout
  leaves the coordinator as it was, although the sensor reads 3.5 miles.
\<close>

theorem post_workout_from_standby_counterexample:
  "current_session new_coordinator = None
   \<and> async_status_changed quiet_env new_coordinator
        (status_event STATE_STANDBY STATE_POST_WORKOUT 600000000) = new_coordinator"
  by (simp add: async_status_changed_def status_event_def new_coordinator_def
        STATE_STANDBY_def STATE_POST_WORKOUT_def STATE_WORKING_def)

subsection \<open>C4: the rate limiter\<close>

text \<open>
  Claim C4, as the code has it. Start from an empty window. For every sequence of
  admission attempts whose clock readings never decrease, at most 150 of the admitted
  attempts lie in any trailing 3600-second window. For every sequence of attempts, at
  arbitrary readings, the stored window never holds more than 150 entries; and an attempt
  that is not admitted raises \<^verbatim>\<open>RateLimitError\<close> and only purges old entries: its own
  reading is not recorded.
\<close>

theorem rate_limit_window:
  assumes empty: "request_times a = []"
  shows "(sorted ts \<longrightarrow> admitted_in_window T ts a \<le> 150)
       \<and> length (request_times (snd (admit_all ts a))) \<le> 150
       \<and> (fst (check_rate_limit t b) \<noteq> Inr () \<longrightarrow>
            fst (check_rate_limit t b) = Inl RateLimitError
          \<and> snd (check_rate_limit t b) =
              b\<lparr>request_times := filter (\<lambda>u. t - u < 3600) (request_times b)\<rparr>)"
proof -
  have window: "admitted_in_window T ts a \<le> 150" if srt: "sorted ts"
  proof (cases ts)
    case Nil
    then show ?thesis by (simp add: admitted_in_window_def)
  next
    case (Cons t' ts')
    have "sorted (t' # ts)" using srt Cons by simp
    moreover have "request_times a = filter (\<lambda>u. t' - u < 3600) []"
      using empty by simp
    moreover have "\<And>T'. length (filter (in_trailing_window T') []) \<le> 150"
      by simp
    ultimately have "length (filter (in_trailing_window T) ([] @ fst (admit_all ts a))) \<le> 150"
      by (rule admit_all_window)
    then show ?thesis by (simp add: admitted_in_window_def)
  qed
  have stored: "length (request_times (snd (admit_all ts a))) \<le> 150"
    by (rule admit_all_length) (simp add: empty)
  show ?thesis
    using window stored check_rate_limit_reject [of t b] by blast
qed

theorem rate_limit_window_witness:
  "sorted [0, 10, 4000 :: real]
   \<and> admitted_in_window 3000 [0, 10, 4000] new_api \<le> 150
   \<and> length (request_times (snd (admit_all [0, 10, 4000] new_api))) \<le> 150
   \<and> fst (check_rate_limit 1000 busy_api) = Inl RateLimitError
   \<and> snd (check_rate_limit 1000 busy_api) = busy_api"
proof -
  have empty: "request_times new_api = []"
    by (simp add: new_api_def)
  have srt: "sorted [0, 10, 4000 :: real]"
    by simp
  have full: "fst (check_rate_limit 1000 busy_api) \<noteq> Inr ()"
    by (simp add: check_rate_limit_def busy_api_def Let_def)
  have purge: "busy_api\<lparr>request_times := filter (\<lambda>u. 1000 - u < 3600) (request_times busy_api)\<rparr>
                 = busy_api"
    by (simp add: busy_api_def)
  show ?thesis
    using rate_limit_window [OF empty, of "[0, 10, 4000]" 3000 1000 busy_api] srt full purge
    by simp
qed

text \<open>
  The claim as stated fails when the clock steps back: 150 attempts at time 10000, one at
  time 20000 (it purges the window) and one more at time 10000 are all admitted, which
  makes 151 admitted attempts in the window that ends at time 10000.
\<close>

theorem rate_limit_clock_back_counterexample:
  "request_times new_api = []
   \<and> admitted_in_window 10000 (replicate 150 10000 @ [20000, 10000]) new_api = 151"
proof -
  have burst: "admit_all (replicate 150 10000) new_api =
          (replicate 150 10000, new_api\<lparr>request_times := replicate 150 10000\<rparr>)"
    using admit_all_burst [of new_api 150 10000] by (simp add: new_api_def)
  have rest: "fst (admit_all [20000, 10000] (new_api\<lparr>request_times := replicate 150 10000\<rparr>))
                = [20000, 10000]"
    by (simp add: check_rate_limit_def Let_def)
  have "admitted_in_window 10000 (replicate 150 10000 @ [20000, 10000]) new_api = 151"
    by (simp add: admitted_in_window_def fst_admit_all_append burst rest in_trailing_window_def
          del: admit_all.simps)
  then show ?thesis by (simp add: new_api_def)
qed

subsection \<open>C5: the duration of a session\<close>




subsection \<open>C6: the profile request and the quota\<close>

text \<open>
  Claim C6 asks \<^verbatim>\<open>get_user_profile\<close> for the quota handling of \<^verbatim>\<open>create_activity_log\<close>. The
  code checks the token and then sends the profile request without calling
  \<^verbatim>\<open>_check_rate_limit\<close>. With 150 requests in the last hour, \<^verbatim>\<open>create_activity_log\<close> raises
  \<^verbatim>\<open>RateLimitError\<close> and sends nothing, while \<^verbatim>\<open>get_user_profile\<close> sends its request and
  returns the profile; and a profile request is never counted in the window.
\<close>

theorem get_user_profile_skips_rate_limit:
  "get_user_profile quiet_env busy_api =
     (Inr [], busy_api\<lparr>client_calls := [UserProfileGetCall]\<rparr>)
   \<and> create_activity_log quiet_env busy_api ''Walking'' 1 0 20 (Some 2112) =
     (Inl RateLimitError, busy_api)
   \<and> request_times (snd (get_user_profile quiet_env new_api)) = []"
  by (simp add: get_user_profile_def create_activity_log_def async_add_executor_job_def
        ensure_token_valid_def check_rate_limit_def busy_api_def new_api_def quiet_env_def
        TOKEN_REFRESH_BUFFER_def Let_def)

subsection \<open>C7: a failed token refresh\<close>

text \<open>
  Claim C7, as the code has it. \<^verbatim>\<open>_refresh_token\<close> either succeeds or raises
  \<^verbatim>\<open>ConfigEntryAuthFailed\<close>. When the remote call itself raises, the three stored fields
  \<open>access_token\<close>, \<open>refresh_token\<close>, \<open>expires_at\<close> (and the stored config entry) are
  unchanged. When it succeeds, the reply had all three keys, the three fields are the new
  values (\<open>expires_at\<close> is the clock reading plus \<^verbatim>\<open>expires_in\<close>) and the config entry
  stores the same three values.
\<close>

theorem refresh_token_outcomes:
  "(fst (refresh_token_op e a) = Inr () \<or> fst (refresh_token_op e a) = Inl ConfigEntryAuthFailed)
   \<and> (refresh_reply e = Inl err \<longrightarrow>
         fst (refresh_token_op e a) = Inl ConfigEntryAuthFailed
       \<and> access_token (snd (refresh_token_op e a)) = access_token a
       \<and> refresh_token (snd (refresh_token_op e a)) = refresh_token a
       \<and> expires_at (snd (refresh_token_op e a)) = expires_at a
       \<and> entry_token (snd (refresh_token_op e a)) = entry_token a)
   \<and> (fst (refresh_token_op e a) = Inr () \<longrightarrow>
         refresh_reply e =
           Inr \<lparr>td_access_token = Some (access_token (snd (refresh_token_op e a))),
                td_refresh_token = Some (refresh_token (snd (refresh_token_op e a))),
                td_expires_in = Some (expires_at (snd (refresh_token_op e a)) - time_refresh e)\<rparr>
       \<and> entry_token (snd (refresh_token_op e a)) =
           Some (access_token (snd (refresh_token_op e a)),
                 refresh_token (snd (refresh_token_op e a)),
                 expires_at (snd (refresh_token_op e a))))"
  by (auto simp add: refresh_token_op_def async_add_executor_job_def Let_def
        split: sum.splits option.splits)

theorem refresh_token_outcomes_witness:
  "fst (refresh_token_op quiet_env new_api) = Inl ConfigEntryAuthFailed
   \<and> access_token (snd (refresh_token_op quiet_env new_api)) = ''access-0''
   \<and> refresh_token (snd (refresh_token_op quiet_env new_api)) = ''refresh-0''
   \<and> expires_at (snd (refresh_token_op quiet_env new_api)) = 100000
   \<and> fst (refresh_token_op full_reply_env new_api) = Inr ()
   \<and> entry_token (snd (refresh_token_op full_reply_env new_api)) =
        Some (''access-1'', ''refresh-1'', 29800)"
proof -
  have failing: "refresh_reply quiet_env = Inl OtherError"
    by (simp add: quiet_env_def)
  have ok: "fst (refresh_token_op full_reply_env new_api) = Inr ()"
    by (simp add: refresh_token_op_def async_add_executor_job_def full_reply_env_def
          quiet_env_def Let_def)
  have reply: "refresh_reply full_reply_env =
      Inr \<lparr>td_access_token = Some ''access-1'', td_refresh_token = Some ''refresh-1'',
           td_expires_in = Some 28800\<rparr>"
    by (simp add: full_reply_env_def)
  have clock: "time_refresh full_reply_env = 1000"
    by (simp add: full_reply_env_def quiet_env_def)
  note raised = refresh_token_outcomes [of quiet_env new_api OtherError]
  note refreshed = refresh_token_outcomes [of full_reply_env new_api OtherError]
  have old: "fst (refresh_token_op quiet_env new_api) = Inl ConfigEntryAuthFailed
       \<and> access_token (snd (refresh_token_op quiet_env new_api)) = ''access-0''
       \<and> refresh_token (snd (refresh_token_op quiet_env new_api)) = ''refresh-0''
       \<and> expires_at (snd (refresh_token_op quiet_env new_api)) = 100000"
    using raised failing by (simp add: new_api_def)
  have new: "entry_token (snd (refresh_token_op full_reply_env new_api)) =
        Some (''access-1'', ''refresh-1'', 29800)"
    using refreshed ok reply clock by simp
  from old ok new show ?thesis by simp
qed

text \<open>
  The claim as stated fails: on a reply with \<^verbatim>\<open>access_token\<close> and \<^verbatim>\<open>refresh_token\<close> but
  without \<^verbatim>\<open>expires_in\<close> the refresh raises \<^verbatim>\<open>ConfigEntryAuthFailed\<close> after it has stored
  the two new tokens.
\<close>

theorem refresh_token_partial_counterexample:
  "fst (refresh_token_op partial_reply_env new_api) = Inl ConfigEntryAuthFailed
   \<and> access_token new_api = ''access-0''
   \<and> access_token (snd (refresh_token_op partial_reply_env new_api)) = ''access-1''
   \<and> refresh_token new_api = ''refresh-0''
   \<and> refresh_token (snd (refresh_token_op partial_reply_env new_api)) = ''refresh-1''"
  by (simp add: refresh_token_op_def async_add_executor_job_def partial_reply_env_def
        quiet_env_def new_api_def Let_def)

subsection \<open>C8: status changes while a session is open\<close>

text \<open>
  Claim C8, as the code has it. While a session is open, an event whose new status is not
  Post-Workout is a no-op when the new status is not Working, and also when the previous
  status was Working already: the coordinator, with its session, is unchanged. An event
  that enters Working from another status replaces the open session by a new one, which
  starts at the time of the event with the distance read then (0 when the read fails).
  The coordinator holds one session at most, being a single optional field.
\<close>

theorem status_changed_in_session:
  assumes ses: "current_session c = Some s"
    and new: "st_state new_state \<noteq> STATE_POST_WORKOUT"
  shows "(st_state new_state \<noteq> STATE_WORKING \<or> st_state old_state = STATE_WORKING \<longrightarrow>
            async_status_changed e c \<lparr>ev_old_state = Some old_state, ev_new_state = Some new_state\<rparr>
              = c)
       \<and> (st_state new_state = STATE_WORKING \<and> st_state old_state \<noteq> STATE_WORKING \<longrightarrow>
            async_status_changed e c \<lparr>ev_old_state = Some old_state, ev_new_state = Some new_state\<rparr>
              = c\<lparr>current_session :=
                    Some \<lparr>start_time = st_last_changed new_state,
                          start_distance =
                            (case get_distance_value e c of Inl err \<Rightarrow> 0 | Inr x \<Rightarrow> x)\<rparr>\<rparr>)"
  using new
  by (auto simp add: async_status_changed_def async_start_session_def split: sum.splits)

theorem status_changed_in_session_witness:
  "async_status_changed quiet_env (in_session 100 1) (status_event STATE_WORKING STATE_STANDBY 200)
     = in_session 100 1
   \<and> async_status_changed quiet_env (in_session 100 1) (status_event STATE_WORKING STATE_WORKING 200)
     = in_session 100 1
   \<and> async_status_changed quiet_env (in_session 100 1) (status_event STATE_STANDBY STATE_WORKING 200)
     = in_session 200 (7 / 2)"
proof -
  let ?ses = "\<lparr>start_time = 100, start_distance = 1\<rparr>"
  let ?was_working = "\<lparr>st_state = STATE_WORKING, st_last_changed = 0\<rparr>"
  let ?was_standby = "\<lparr>st_state = STATE_STANDBY, st_last_changed = 0\<rparr>"
  let ?working = "\<lparr>st_state = STATE_WORKING, st_last_changed = 200\<rparr>"
  let ?standby = "\<lparr>st_state = STATE_STANDBY, st_last_changed = 200\<rparr>"
  have ses: "current_session (in_session 100 1) = Some ?ses"
    by (simp add: in_session_def)
  have names: "STATE_STANDBY \<noteq> STATE_POST_WORKOUT" "STATE_WORKING \<noteq> STATE_POST_WORKOUT"
    "STATE_STANDBY \<noteq> STATE_WORKING"
    by (simp_all add: STATE_STANDBY_def STATE_WORKING_def STATE_POST_WORKOUT_def)
  have dist: "get_distance_value quiet_env (in_session 100 1) = Inr (7 / 2)"
    by (simp add: get_distance_value_def quiet_env_def in_session_def new_coordinator_def)
  have pause: "async_status_changed quiet_env (in_session 100 1)
                 (status_event STATE_WORKING STATE_STANDBY 200) = in_session 100 1"
    using status_changed_in_session [OF ses, of ?standby ?was_working quiet_env] names
    by (simp add: status_event_def)
  have same: "async_status_changed quiet_env (in_session 100 1)
                (status_event STATE_WORKING STATE_WORKING 200) = in_session 100 1"
    using status_changed_in_session [OF ses, of ?working ?was_working quiet_env] names
    by (simp add: status_event_def)
  have again: "async_status_changed quiet_env (in_session 100 1)
                 (status_event STATE_STANDBY STATE_WORKING 200) = in_session 200 (7 / 2)"
    using status_changed_in_session [OF ses, of ?working ?was_standby quiet_env] names dist
    by (simp add: status_event_def in_session_def)
  from pause same again show ?thesis by (intro conjI)
qed

text \<open>
  The claim as stated fails: with a session open since time 100 at 1 mile, an event from
  Standby to Working at time 200 replaces it by a session that starts at time 200 at 3.5
  miles.
\<close>

theorem status_changed_in_session_counterexample:
  "current_session (in_session 100 1) = Some \<lparr>start_time = 100, start_distance = 1\<rparr>
   \<and> STATE_WORKING \<noteq> STATE_POST_WORKOUT
   \<and> current_session
        (async_status_changed quiet_env (in_session 100 1)
           (status_event STATE_STANDBY STATE_WORKING 200))
        = Some \<lparr>start_time = 200, start_distance = 7 / 2\<rparr>"
  by (simp add: async_status_changed_def async_start_session_def get_distance_value_def
        status_event_def in_session_def new_coordinator_def quiet_env_def
        STATE_STANDBY_def STATE_POST_WORKOUT_def STATE_WORKING_def)

subsection \<open>C10: manual sync with an override distance\<close>

text \<open>
  Claim C10 says that \<^verbatim>\<open>manual_sync\<close>, which validates no distance, proceeds to the
  create-activity call with the override \<open>d\<close> and \<open>steps = int (d * 5280 / s)\<close>. The code
  checks no bound indeed, and is written to go on to \<^verbatim>\<open>_async_sync_workout\<close>, but it
  does not get there: the start time is \<^verbatim>\<open>datetime.now(self.hass.config.time_zone)\<close>, the
  time zone is a string and the call raises \<^verbatim>\<open>TypeError\<close>. For every override the
  \<^verbatim>\<open>except\<close> clause sends one failure notification and raises the error again; the sync
  client is not touched (no token check, no slot of the rate window, no request) and
  nothing is recorded. So it is for an override of 2 miles.
\<close>

theorem manual_sync_raises_before_sync:
  "manual_sync e c (Some d) =
     (Inl TypeError, notify_sync_result c False None None (Some (StrOfException TypeError)))
   \<and> api (snd (manual_sync e c (Some d))) = api c
   \<and> sync_history (snd (manual_sync e c (Some d))) = sync_history c
   \<and> manual_sync quiet_env new_coordinator (Some 2) =
       (Inl TypeError,
        new_coordinator
          \<lparr>hass_calls := [Notification False None None (Some (StrOfException TypeError))]\<rparr>)"
proof -
  have at_two: "manual_sync quiet_env new_coordinator (Some 2) =
       (Inl TypeError,
        new_coordinator
          \<lparr>hass_calls := [Notification False None None (Some (StrOfException TypeError))]\<rparr>)"
    by (simp add: manual_sync_host notify_sync_result_def new_coordinator_def)
  have raised: "manual_sync e c (Some d) =
     (Inl TypeError, notify_sync_result c False None None (Some (StrOfException TypeError)))"
    by (rule manual_sync_host)
  have client: "api (snd (manual_sync e c (Some d))) = api c"
    by (simp add: manual_sync_host notify_sync_result_def)
  have history: "sync_history (snd (manual_sync e c (Some d))) = sync_history c"
    by (simp add: manual_sync_host sync_history_notify_sync_result)
  from raised client history at_two show ?thesis by (intro conjI)
qed

end
